theory Spec2Isabelle
  imports Complex_Main "HOL-Library.Word"
begin

section \<open>JavaScript values read by the clip route\<close>

text \<open>
  The route handler (\<^verbatim>\<open>POST\<close>) receives a JSON body and reads its fields \<^verbatim>\<open>url\<close>,
  \<^verbatim>\<open>start\<close> and \<^verbatim>\<open>end\<close>. A JavaScript number is an IEEE double: besides the finite
  values there are \<^verbatim>\<open>NaN\<close>, \<^verbatim>\<open>Infinity\<close> and \<^verbatim>\<open>-Infinity\<close>. A finite double is read
  as the real it denotes. Comparison, \<^verbatim>\<open>Math.max\<close> and \<^verbatim>\<open>Math.floor\<close> are exact on
  doubles. A subtraction is not: it rounds the exact difference to a double, or to an
  infinity on overflow, and that rounding is a parameter of the model (\<open>rnd\<close> below,
  \<open>roundToDouble\<close> of the environment).
\<close>

datatype jsnum = NaN | NegInf | Fin real | PosInf

text \<open>\<^verbatim>\<open>a <= b\<close> on numbers: every comparison with \<^verbatim>\<open>NaN\<close> is false.\<close>

fun js_le :: "jsnum \<Rightarrow> jsnum \<Rightarrow> bool" where
  "js_le NaN b = False"
| "js_le NegInf b = (b \<noteq> NaN)"
| "js_le (Fin x) b = (case b of Fin y \<Rightarrow> x \<le> y | PosInf \<Rightarrow> True | _ \<Rightarrow> False)"
| "js_le PosInf b = (b = PosInf)"

text \<open>
  \<^verbatim>\<open>a - b\<close> on numbers: the difference of two finite doubles is the rounding \<open>rnd\<close> of
  their exact difference.
\<close>

fun js_sub :: "(real \<Rightarrow> jsnum) \<Rightarrow> jsnum \<Rightarrow> jsnum \<Rightarrow> jsnum" where
  "js_sub rnd NaN b = NaN"
| "js_sub rnd NegInf b = (case b of NaN \<Rightarrow> NaN | NegInf \<Rightarrow> NaN | _ \<Rightarrow> NegInf)"
| "js_sub rnd (Fin x) b =
     (case b of NaN \<Rightarrow> NaN | NegInf \<Rightarrow> PosInf | Fin y \<Rightarrow> rnd (x - y) | PosInf \<Rightarrow> NegInf)"
| "js_sub rnd PosInf b = (case b of NaN \<Rightarrow> NaN | PosInf \<Rightarrow> NaN | _ \<Rightarrow> PosInf)"

text \<open>\<^verbatim>\<open>Math.max(a, b)\<close>: \<^verbatim>\<open>NaN\<close> if either argument is, the larger one otherwise.\<close>

fun js_max :: "jsnum \<Rightarrow> jsnum \<Rightarrow> jsnum" where
  "js_max NaN b = NaN"
| "js_max NegInf b = b"
| "js_max (Fin x) b =
     (case b of NaN \<Rightarrow> NaN | NegInf \<Rightarrow> Fin x | Fin y \<Rightarrow> Fin (max x y) | PosInf \<Rightarrow> PosInf)"
| "js_max PosInf b = (case b of NaN \<Rightarrow> NaN | _ \<Rightarrow> PosInf)"

text \<open>\<^verbatim>\<open>Math.floor(a)\<close>: the special values are returned unchanged.\<close>

fun js_floor :: "jsnum \<Rightarrow> jsnum" where
  "js_floor (Fin x) = Fin (of_int \<lfloor>x\<rfloor>)"
| "js_floor a = a"


subsection \<open>Numbers as text\<close>

text \<open>
  \<^verbatim>\<open>String(n)\<close> and the interpolation \<^verbatim>\<open>${n}\<close> print a number the same way: the
  special values by name, and otherwise the shortest digits that read back as the same
  double. For an integer of magnitude at most \<open>2\<^sup>5\<^sup>3\<close> these are its decimal digits;
  above that bound they are not in general (\<open>2\<^sup>6\<^sup>0\<close> prints as 1152921504606847000), and
  the digits of every other double are left to a parameter.
\<close>

definition digitChar :: "nat \<Rightarrow> char" where
  "digitChar d = ''0123456789'' ! d"

function showNat :: "nat \<Rightarrow> string" where
  "showNat n = (if n < 10 then [digitChar n] else showNat (n div 10) @ [digitChar (n mod 10)])"
  by pat_completeness auto
termination
  by (relation "measure (\<lambda>n. n)") auto

declare showNat.simps [simp del]

definition showInt :: "int \<Rightarrow> string" where
  "showInt i = (if i < 0 then CHR ''-'' # showNat (nat (- i)) else showNat (nat i))"

definition numberToString :: "(real \<Rightarrow> string) \<Rightarrow> jsnum \<Rightarrow> string" where
  "numberToString other a =
     (case a of
        NaN \<Rightarrow> ''NaN''
      | NegInf \<Rightarrow> ''-Infinity''
      | PosInf \<Rightarrow> ''Infinity''
      | Fin x \<Rightarrow>
          if of_int \<lfloor>x\<rfloor> = x \<and> \<bar>x\<bar> \<le> 2 ^ 53 then showInt \<lfloor>x\<rfloor> else other x)"

subsection \<open>Field values and thrown errors\<close>

text \<open>
  A field of the parsed body can hold any JSON value or be absent (\<^verbatim>\<open>undefined\<close>).
  Objects and arrays are not inspected by the handler and are one constructor.
\<close>

datatype jsval = JUndefined | JNull | JBool bool | JNum jsnum | JStr string | JObject

text \<open>Truthiness, as \<^verbatim>\<open>!v\<close> sees it.\<close>

fun truthy :: "jsval \<Rightarrow> bool" where
  "truthy JUndefined = False"
| "truthy JNull = False"
| "truthy (JBool b) = b"
| "truthy (JNum a) = (case a of NaN \<Rightarrow> False | Fin x \<Rightarrow> x \<noteq> 0 | _ \<Rightarrow> True)"
| "truthy (JStr s) = (s \<noteq> [])"
| "truthy JObject = True"

fun isString :: "jsval \<Rightarrow> bool" where
  "isString (JStr s) = True"
| "isString v = False"

fun isNumber :: "jsval \<Rightarrow> bool" where
  "isNumber (JNum a) = True"
| "isNumber v = False"

text \<open>
  The reads \<^verbatim>\<open>start!\<close>, \<^verbatim>\<open>end!\<close> and \<^verbatim>\<open>url!\<close> after validation: there the field is a
  number (a string); the other equations are never reached by the handler.
\<close>

fun numberOf :: "jsval \<Rightarrow> jsnum" where
  "numberOf (JNum a) = a"
| "numberOf v = NaN"

fun stringOf :: "jsval \<Rightarrow> string" where
  "stringOf (JStr s) = s"
| "stringOf v = []"

text \<open>
  A thrown value: an \<^verbatim>\<open>Error\<close> object with its name and message, or any other value,
  given by what \<^verbatim>\<open>String(err)\<close> prints for it.
\<close>

datatype thrown = JsError string string | ThrownValue string

text \<open>\<^verbatim>\<open>err?.message || String(err)\<close> in the handler's catch clause.\<close>

fun catchMessage :: "thrown \<Rightarrow> string" where
  "catchMessage (JsError name msg) = (if msg \<noteq> [] then msg else name)"
| "catchMessage (ThrownValue s) = s"

section \<open>Validation\<close>

record body =
  url :: jsval
  start :: jsval
  end' :: jsval
  format :: jsval

text \<open>\<^verbatim>\<open>validateBody\<close>: returns normally or throws an \<^verbatim>\<open>Error\<close>.\<close>

definition validateBody :: "body \<Rightarrow> thrown + unit" where
  "validateBody b =
     (if \<not> truthy (url b) \<or> \<not> isString (url b) then
        Inl (JsError ''Error'' ''Missing url'')
      else if \<not> isNumber (start b) \<or> \<not> isNumber (end' b) then
        Inl (JsError ''Error'' ''Missing start/end'')
      else if js_le (numberOf (end' b)) (numberOf (start b)) then
        Inl (JsError ''Error'' ''end must be greater than start'')
      else Inr ())"

section \<open>The handler's collaborators\<close>

text \<open>
  The handler calls the video library (\<^verbatim>\<open>ytdl.getInfo\<close>, \<^verbatim>\<open>ytdl.chooseFormat\<close>,
  \<^verbatim>\<open>ytdl.downloadFromInfo\<close>), the transcoder (\<^verbatim>\<open>ffmpeg\<close>), \<^verbatim>\<open>randomUUID\<close> and the
  file system. None of them is code of the route; each is a field of the environment
  \<open>env\<close>, and every library call can throw.
\<close>

type_synonym bytes = "8 word list"

text \<open>
  One entry of \<^verbatim>\<open>info.formats\<close>, with the fields the handler reads. A missing
  locator is the empty string (both are falsy). \<open>qualityRank\<close> is the spec's quality
  rank of a candidate, the order that the option \<^verbatim>\<open>quality: "highest"\<close> asks for.
\<close>

record videoFormat =
  container :: string
  hasVideo :: bool
  hasAudio :: bool
  isHLS :: bool
  isDashMPD :: bool
  itag :: nat
  format_url :: string
  qualityRank :: nat

record videoInfo =
  formats :: "videoFormat list"

record chooseFormatOptions =
  filter_opt :: "(videoFormat \<Rightarrow> bool) option"
  quality :: string

record downloadOptions =
  quality_itag :: nat
  filter_name :: string
  highWaterMark :: nat

text \<open>The stream returned by \<^verbatim>\<open>downloadFromInfo\<close> is opaque to the handler: a handle.\<close>

type_synonym readable = nat

record ffmpegCommand =
  input :: readable
  inputOptions :: "string list"
  outputOptions :: "string list"
  outputFormat :: string
  savePath :: string

text \<open>
  A finished transcoder run: the \<^verbatim>\<open>end\<close> event with the file written at the save path,
  or the \<^verbatim>\<open>error\<close> event, after which a partial file may have been left there.
\<close>

datatype ffmpegOutcome = Ended bytes | Errored thrown "bytes option"

record env =
  roundToDouble :: "real \<Rightarrow> jsnum"
  otherNumberToString :: "real \<Rightarrow> string"
  nullPropertyError :: thrown
  randomUUID :: string
  ffmpegStatic :: "string option"
  getInfo :: "string \<Rightarrow> thrown + videoInfo"
  chooseFormat :: "videoFormat list \<Rightarrow> chooseFormatOptions \<Rightarrow> thrown + videoFormat option"
  downloadFromInfo :: "videoInfo \<Rightarrow> downloadOptions \<Rightarrow> thrown + readable"
  ffmpegRun :: "ffmpegCommand \<Rightarrow> ffmpegOutcome"
  readFault :: "string \<Rightarrow> thrown option"
  noSuchFile :: "string \<Rightarrow> thrown"
  unlinkFails :: "string \<Rightarrow> bool"

text \<open>The operations a request performs on its collaborators, in order.\<close>

datatype event =
    RandomUUID
  | SetFfmpegPath string
  | GetInfo string
  | DownloadFromInfo videoInfo downloadOptions
  | RunFfmpeg ffmpegCommand
  | ReadFile string
  | Unlink string

record world =
  files :: "string \<rightharpoonup> bytes"
  trace :: "event list"

datatype payload = Text string | Binary bytes

record response =
  status :: nat
  headers :: "(string \<times> string) list"
  payload :: payload

text \<open>
  What \<^verbatim>\<open>await req.json()\<close> gives: a rejection, \<^verbatim>\<open>null\<close> (reading a field of it
  throws), or a value with fields. A number, a string or an array has none of the three
  fields and reads as a body whose fields are all \<^verbatim>\<open>undefined\<close>.
\<close>

datatype request = JsonRejects thrown | JsonNull | JsonBody body

subsection \<open>Steps that touch the world\<close>

type_synonym 'a action = "world \<Rightarrow> (thrown + 'a) \<times> world"

definition succeed :: "'a \<Rightarrow> 'a action" where
  "succeed x w = (Inr x, w)"

definition raise :: "thrown \<Rightarrow> 'a action" where
  "raise e w = (Inl e, w)"

definition fromResult :: "thrown + 'a \<Rightarrow> 'a action" where
  "fromResult r w = (r, w)"

definition andThen :: "'a action \<Rightarrow> ('a \<Rightarrow> 'b action) \<Rightarrow> 'b action" where
  "andThen m k w = (case m w of (Inl e, w') \<Rightarrow> (Inl e, w') | (Inr x, w') \<Rightarrow> k x w')"

definition emit :: "event \<Rightarrow> unit action" where
  "emit ev w = (Inr (), w\<lparr>trace := trace w @ [ev]\<rparr>)"

definition toStr :: "env \<Rightarrow> jsnum \<Rightarrow> string" where
  "toStr env a = numberToString (otherNumberToString env) a"

text \<open>\<^verbatim>\<open>if (ffmpegStatic) ffmpeg.setFfmpegPath(ffmpegStatic)\<close>\<close>

definition configureFfmpeg :: "env \<Rightarrow> unit action" where
  "configureFfmpeg env =
     (case ffmpegStatic env of
        None \<Rightarrow> succeed ()
      | Some p \<Rightarrow> if p \<noteq> [] then emit (SetFfmpegPath p) else succeed ())"

definition callGetInfo :: "env \<Rightarrow> string \<Rightarrow> videoInfo action" where
  "callGetInfo env u = andThen (emit (GetInfo u)) (\<lambda>_. fromResult (getInfo env u))"

definition callDownloadFromInfo :: "env \<Rightarrow> videoInfo \<Rightarrow> downloadOptions \<Rightarrow> readable action" where
  "callDownloadFromInfo env info opts =
     andThen (emit (DownloadFromInfo info opts)) (\<lambda>_. fromResult (downloadFromInfo env info opts))"

text \<open>
  The promise around the transcoder: resolved on \<^verbatim>\<open>end\<close>, rejected on \<^verbatim>\<open>error\<close>.
  The transcoder writes to the path given to \<^verbatim>\<open>save\<close>.
\<close>

definition runFfmpeg :: "env \<Rightarrow> ffmpegCommand \<Rightarrow> unit action" where
  "runFfmpeg env cmd w =
     (let w1 = w\<lparr>trace := trace w @ [RunFfmpeg cmd]\<rparr> in
      case ffmpegRun env cmd of
        Ended d \<Rightarrow> (Inr (), w1\<lparr>files := (files w1)(savePath cmd \<mapsto> d)\<rparr>)
      | Errored e None \<Rightarrow> (Inl e, w1)
      | Errored e (Some d) \<Rightarrow> (Inl e, w1\<lparr>files := (files w1)(savePath cmd \<mapsto> d)\<rparr>))"

text \<open>\<^verbatim>\<open>await fs.readFile(outFile)\<close>: fails on a missing file or on an I/O fault.\<close>

definition readFile :: "env \<Rightarrow> string \<Rightarrow> bytes action" where
  "readFile env p w =
     (let w1 = w\<lparr>trace := trace w @ [ReadFile p]\<rparr> in
      case readFault env p of
        Some e \<Rightarrow> (Inl e, w1)
      | None \<Rightarrow> (case files w p of None \<Rightarrow> (Inl (noSuchFile env p), w1) | Some d \<Rightarrow> (Inr d, w1)))"

text \<open>
  \<^verbatim>\<open>fs.unlink(outFile).catch(() => {})\<close>: not awaited, and its failure is swallowed.
  The model applies the deletion at once.
\<close>

definition unlink :: "env \<Rightarrow> string \<Rightarrow> unit action" where
  "unlink env p w =
     (let w1 = w\<lparr>trace := trace w @ [Unlink p]\<rparr> in
      if unlinkFails env p then (Inr (), w1) else (Inr (), w1\<lparr>files := (files w1)(p := None)\<rparr>))"

section \<open>The handler\<close>

text \<open>The filter passed to the first \<^verbatim>\<open>chooseFormat\<close> call.\<close>

definition progressiveMp4 :: "videoFormat \<Rightarrow> bool" where
  "progressiveMp4 f =
     (container f = ''mp4'' \<and> hasVideo f \<and> hasAudio f \<and> isHLS f = False \<and> isDashMPD f = False)"

text \<open>
  \<^verbatim>\<open>chooseFormat(formats, {filter, quality: "highest"}) || chooseFormat(formats, {quality: "highest"})\<close>:
  the second call is made when the first returns nothing; a throw of either ends the
  selection.
\<close>

definition selectFormat ::
  "(videoFormat list \<Rightarrow> chooseFormatOptions \<Rightarrow> thrown + videoFormat option) \<Rightarrow>
     videoFormat list \<Rightarrow> thrown + videoFormat option" where
  "selectFormat chooser fs =
     (case chooser fs (\<lparr>filter_opt = Some progressiveMp4, quality = ''highest''\<rparr>) of
        Inl e \<Rightarrow> Inl e
      | Inr (Some f) \<Rightarrow> Inr (Some f)
      | Inr None \<Rightarrow> chooser fs (\<lparr>filter_opt = None, quality = ''highest''\<rparr>))"

text \<open>
  The literal \<^verbatim>\<open>0.01\<close> denotes the double nearest to one hundredth, which is
  \<open>5764607523034235 / 2\<^sup>5\<^sup>9\<close>.
\<close>

definition pointZeroOne :: jsnum where
  "pointZeroOne = Fin (5764607523034235 / 2 ^ 59)"

text \<open>\<^verbatim>\<open>Math.max(0.01, end! - start!)\<close>\<close>

definition durationOf :: "env \<Rightarrow> jsnum \<Rightarrow> jsnum \<Rightarrow> jsnum" where
  "durationOf env s e = js_max pointZeroOne (js_sub (roundToDouble env) e s)"

text \<open>
  \<^verbatim>\<open>path.join("/tmp", `clip_${id}.mp4`)\<close>: the identifier is a UUID (hexadecimal digits
  and dashes), so joining only puts a slash between the two parts.
\<close>

definition outFileOf :: "string \<Rightarrow> string" where
  "outFileOf ident = ''/tmp/clip_'' @ ident @ ''.mp4''"

definition ffmpegCommandOf :: "env \<Rightarrow> readable \<Rightarrow> jsnum \<Rightarrow> jsnum \<Rightarrow> string \<Rightarrow> ffmpegCommand" where
  "ffmpegCommandOf env rs s duration outFile =
     \<lparr>input = rs,
      inputOptions = [],
      outputOptions =
        [''-ss'', toStr env s, ''-t'', toStr env duration,
         ''-c:v'', ''libx264'', ''-preset'', ''veryfast'', ''-crf'', ''23'',
         ''-c:a'', ''aac'', ''-movflags'', ''+faststart''],
      outputFormat = ''mp4'',
      savePath = outFile\<rparr>"

text \<open>The double quote character, written inside the header value.\<close>

definition dquote :: char where
  "dquote = CHR 0x22"

definition noFormatResponse :: response where
  "noFormatResponse =
     \<lparr>status = 400, headers = [], payload = Text ''Failed to get a downloadable format''\<rparr>"

definition clipResponse :: "env \<Rightarrow> jsnum \<Rightarrow> jsnum \<Rightarrow> bytes \<Rightarrow> response" where
  "clipResponse env s e d =
     \<lparr>status = 200,
      headers =
        [(''Content-Type'', ''video/mp4''),
         (''Content-Disposition'',
            ''attachment; filename='' @ [dquote] @ ''clip_'' @ toStr env (js_floor s) @ ''-'' @
               toStr env (js_floor e) @ ''.mp4'' @ [dquote]),
         (''Cache-Control'', ''no-store'')],
      payload = Binary d\<rparr>"

text \<open>Lines 61 to 112: open the stream, transcode, read the file back, delete it, respond.\<close>

definition transcodeAndRespond ::
  "env \<Rightarrow> jsnum \<Rightarrow> jsnum \<Rightarrow> string \<Rightarrow> videoInfo \<Rightarrow> videoFormat \<Rightarrow> response action" where
  "transcodeAndRespond env s e outFile info f =
     andThen (callDownloadFromInfo env info
                (\<lparr>quality_itag = itag f, filter_name = ''audioandvideo'', highWaterMark = 2 ^ 25\<rparr>))
       (\<lambda>rs. andThen (runFfmpeg env (ffmpegCommandOf env rs s (durationOf env s e) outFile))
         (\<lambda>_. andThen (readFile env outFile)
           (\<lambda>d. andThen (unlink env outFile)
             (\<lambda>_. succeed (clipResponse env s e d)))))"

text \<open>Lines 36 to 59, then the rest: the body of the handler after validation.\<close>

definition processValid :: "env \<Rightarrow> body \<Rightarrow> response action" where
  "processValid env b =
     (let s = numberOf (start b); e = numberOf (end' b); outFile = outFileOf (randomUUID env) in
      andThen (emit RandomUUID)
        (\<lambda>_. andThen (configureFfmpeg env)
          (\<lambda>_. andThen (callGetInfo env (stringOf (url b)))
            (\<lambda>info. andThen (fromResult (selectFormat (chooseFormat env) (formats info)))
              (\<lambda>chosen.
                 case chosen of
                   None \<Rightarrow> succeed noFormatResponse
                 | Some f \<Rightarrow>
                     if format_url f = [] then succeed noFormatResponse
                     else transcodeAndRespond env s e outFile info f)))))"

text \<open>The \<^verbatim>\<open>try\<close> block of \<^verbatim>\<open>POST\<close>.\<close>

definition tryBlock :: "env \<Rightarrow> request \<Rightarrow> response action" where
  "tryBlock env req =
     (case req of
        JsonRejects e \<Rightarrow> raise e
      | JsonNull \<Rightarrow> raise (nullPropertyError env)
      | JsonBody b \<Rightarrow> andThen (fromResult (validateBody b)) (\<lambda>_. processValid env b))"

text \<open>
  \<^verbatim>\<open>POST\<close>: the \<^verbatim>\<open>try\<close> block, and the \<^verbatim>\<open>catch\<close> clause that turns whatever was
  thrown into a response of status 500. The request starts with the given files and an
  empty log of operations.
\<close>

definition POST :: "env \<Rightarrow> request \<Rightarrow> (string \<rightharpoonup> bytes) \<Rightarrow> response \<times> world" where
  "POST env req fs0 =
     (case tryBlock env req (\<lparr>files = fs0, trace = []\<rparr>) of
        (Inr r, w) \<Rightarrow> (r, w)
      | (Inl err, w) \<Rightarrow> (\<lparr>status = 500, headers = [], payload = Text (catchMessage err)\<rparr>, w))"

section \<open>The format chooser\<close>

text \<open>
  Modelled from the spec: the candidate of highest quality rank in a list, which the
  library computes and the route's source does not. Of several candidates of the highest
  rank the first in manifest order is taken; an empty list has none.
\<close>

fun highestRank :: "videoFormat list \<Rightarrow> videoFormat option" where
  "highestRank [] = None"
| "highestRank (f # fs) =
     (case highestRank fs of
        None \<Rightarrow> Some f
      | Some g \<Rightarrow> if qualityRank f < qualityRank g then Some g else Some f)"

text \<open>
  Modelled from the spec: \<^verbatim>\<open>ytdl.chooseFormat\<close> is library code and not part of the
  route's source. The spec's resolver picks, among the candidates that pass the filter,
  the one of highest quality rank ("among matches, pick the highest quality rank"), and
  the handler's \<^verbatim>\<open>||\<close> moves on to the unfiltered call "if none match": the call
  returns nothing when no candidate passes, and it does not throw.
\<close>

definition chooseFormatSpec ::
  "videoFormat list \<Rightarrow> chooseFormatOptions \<Rightarrow> thrown + videoFormat option" where
  "chooseFormatSpec fs opts =
     Inr (highestRank (case filter_opt opts of None \<Rightarrow> fs | Some p \<Rightarrow> filter p fs))"

section \<open>Sample requests and environments\<close>

definition demoProgressive :: videoFormat where
  "demoProgressive =
     \<lparr>container = ''mp4'', hasVideo = True, hasAudio = True, isHLS = False, isDashMPD = False,
      itag = 18, format_url = ''https://media.example/18'', qualityRank = 2\<rparr>"

definition demoVideoOnly :: videoFormat where
  "demoVideoOnly =
     \<lparr>container = ''webm'', hasVideo = True, hasAudio = False, isHLS = False, isDashMPD = False,
      itag = 248, format_url = ''https://media.example/248'', qualityRank = 7\<rparr>"

definition demoSegmented :: videoFormat where
  "demoSegmented =
     \<lparr>container = ''mp4'', hasVideo = True, hasAudio = True, isHLS = True, isDashMPD = False,
      itag = 95, format_url = ''https://media.example/95.m3u8'', qualityRank = 4\<rparr>"

text \<open>The printed form of the non-integers that the sample requests meet.\<close>

definition demoNumberToString :: "real \<Rightarrow> string" where
  "demoNumberToString x =
     (if x = 5764607523034235 / 2 ^ 59 then ''0.01''
      else if x = 1 / 2 then ''0.5''
      else if x = - (1 / 2) then ''-0.5''
      else ''?'')"

text \<open>
  An environment in which every collaborator succeeds: the manifest lists a video-only
  and a progressive candidate, and the transcoder writes three bytes. Its rounding is
  the identity, which is right wherever the exact difference is a double, as it is in
  every sample request (the differences are 0, 1, 5 and 10).
\<close>

definition demoEnv :: env where
  "demoEnv =
     \<lparr>roundToDouble = Fin,
      otherNumberToString = demoNumberToString,
      nullPropertyError = JsError ''TypeError'' ''Cannot read properties of null'',
      randomUUID = ''7f3c'',
      ffmpegStatic = Some ''/opt/ffmpeg'',
      getInfo = (\<lambda>u. Inr \<lparr>formats = [demoVideoOnly, demoProgressive]\<rparr>),
      chooseFormat = chooseFormatSpec,
      downloadFromInfo = (\<lambda>info opts. Inr 0),
      ffmpegRun = (\<lambda>cmd. Ended [1, 2, 3]),
      readFault = (\<lambda>p. None),
      noSuchFile = (\<lambda>p. JsError ''Error'' ''ENOENT''),
      unlinkFails = (\<lambda>p. False)\<rparr>"

text \<open>The request \<^verbatim>\<open>{url, start: 10, end: 15, format: "mp4"}\<close>.\<close>

definition demoBody :: body where
  "demoBody =
     \<lparr>url = JStr ''https://video.example/watch?v=abc'', start = JNum (Fin 10),
      end' = JNum (Fin 15), format = JStr ''mp4''\<rparr>"

text \<open>The request \<^verbatim>\<open>{url, start: 20, end: 20}\<close>.\<close>

definition zeroLengthBody :: body where
  "zeroLengthBody =
     \<lparr>url = JStr ''https://video.example/watch?v=abc'', start = JNum (Fin 20),
      end' = JNum (Fin 20), format = JUndefined\<rparr>"

text \<open>The transcoder command that \<open>demoBody\<close> leads to in \<open>demoEnv\<close>.\<close>

definition demoCommand :: ffmpegCommand where
  "demoCommand =
     \<lparr>input = 0, inputOptions = [],
      outputOptions =
        [''-ss'', ''10'', ''-t'', ''5'', ''-c:v'', ''libx264'', ''-preset'', ''veryfast'',
         ''-crf'', ''23'', ''-c:a'', ''aac'', ''-movflags'', ''+faststart''],
      outputFormat = ''mp4'', savePath = ''/tmp/clip_7f3c.mp4''\<rparr>"

text \<open>As \<open>demoBody\<close>, but asking for another container.\<close>

definition webmBody :: body where
  "webmBody =
     \<lparr>url = JStr ''https://video.example/watch?v=abc'', start = JNum (Fin 10),
      end' = JNum (Fin 15), format = JStr ''webm''\<rparr>"


text \<open>The request \<^verbatim>\<open>{url, start: -5, end: 5}\<close>.\<close>

definition negativeStartBody :: body where
  "negativeStartBody =
     \<lparr>url = JStr ''https://video.example/watch?v=abc'', start = JNum (Fin (- 5)),
      end' = JNum (Fin 5), format = JUndefined\<rparr>"




text \<open>
  As \<open>demoEnv\<close>, but the transcoder exits with an error after it has written two bytes
  of output.
\<close>

definition failingTranscodeEnv :: env where
  "failingTranscodeEnv =
     demoEnv\<lparr>ffmpegRun :=
       (\<lambda>cmd. Errored (JsError ''Error'' ''ffmpeg exited with code 1'') (Some [0, 0]))\<rparr>"


section \<open>Auxiliary facts\<close>

lemmas handler_defs =
  POST_def tryBlock_def processValid_def transcodeAndRespond_def andThen_def succeed_def
  raise_def fromResult_def emit_def configureFfmpeg_def callGetInfo_def
  callDownloadFromInfo_def runFfmpeg_def readFile_def unlink_def

lemmas demo_defs =
  demoEnv_def demoBody_def validateBody_def selectFormat_def chooseFormatSpec_def
  demoProgressive_def demoVideoOnly_def progressiveMp4_def Let_def outFileOf_def
  clipResponse_def toStr_def numberToString_def showInt_def showNat.simps digitChar_def
  dquote_def durationOf_def pointZeroOne_def demoNumberToString_def ffmpegCommandOf_def

lemma highestRank_mem: "highestRank fs = Some g \<Longrightarrow> g \<in> set fs"
  by (induction fs arbitrary: g) (auto split: option.splits if_splits)

lemma highestRank_nonempty: "fs \<noteq> [] \<Longrightarrow> \<exists>g. highestRank fs = Some g"
  by (cases fs) (auto split: option.splits)

lemma highestRank_max:
  "highestRank fs = Some g \<Longrightarrow> f \<in> set fs \<Longrightarrow> qualityRank f \<le> qualityRank g"
proof (induction fs arbitrary: g)
  case Nil
  then show ?case by simp
next
  case (Cons a fs)
  show ?case
  proof (cases "highestRank fs")
    case None
    then have "fs = []"
      by (cases fs) (auto split: option.splits if_splits)
    with Cons.prems None show ?thesis by simp
  next
    case (Some h)
    then show ?thesis
      using Cons.prems Cons.IH [OF Some] by (auto split: if_splits)
  qed
qed

text \<open>A throw of the filtered call ends the selection: the unfiltered call is not made.\<close>

lemma selectFormat_throws:
  "chooser fs \<lparr>filter_opt = Some progressiveMp4, quality = ''highest''\<rparr> = Inl e \<Longrightarrow>
     selectFormat chooser fs = Inl e"
  by (simp add: selectFormat_def)

text \<open>A request that fails validation is answered from the catch clause at once.\<close>

lemma POST_invalid:
  "validateBody b = Inl err \<Longrightarrow>
     POST env (JsonBody b) fs0 =
       (\<lparr>status = 500, headers = [], payload = Text (catchMessage err)\<rparr>,
        \<lparr>files = fs0, trace = []\<rparr>)"
  by (simp add: POST_def tryBlock_def andThen_def fromResult_def)

text \<open>Every transcoder run of a request is the command built at lines 70 to 98.\<close>

lemma trace_RunFfmpeg:
  assumes "RunFfmpeg cmd \<in> set (trace (snd (POST env (JsonBody b) fs0)))"
  shows "\<exists>rs. cmd = ffmpegCommandOf env rs (numberOf (start b))
            (durationOf env (numberOf (start b)) (numberOf (end' b))) (outFileOf (randomUUID env))"
  using assms
  by (auto simp: handler_defs Let_def
      split: sum.splits option.splits if_splits prod.splits ffmpegOutcome.splits)

lemma demo_valid: "validateBody demoBody = Inr ()"
  by (simp add: validateBody_def demoBody_def)

lemma demo_trace:
  "trace (snd (POST demoEnv (JsonBody demoBody) Map.empty)) =
     [RandomUUID, SetFfmpegPath ''/opt/ffmpeg'', GetInfo ''https://video.example/watch?v=abc'',
      DownloadFromInfo \<lparr>formats = [demoVideoOnly, demoProgressive]\<rparr>
        \<lparr>quality_itag = 18, filter_name = ''audioandvideo'', highWaterMark = 33554432\<rparr>,
      RunFfmpeg demoCommand, ReadFile ''/tmp/clip_7f3c.mp4'', Unlink ''/tmp/clip_7f3c.mp4'']"
  by (simp add: handler_defs demo_defs demoCommand_def)

lemmas split_all =
  sum.splits option.splits if_splits prod.splits ffmpegOutcome.splits request.splits






text \<open>The deletion is reached on the success path only.\<close>

lemma unlink_only_on_success:
  "Unlink p \<in> set (trace (snd (POST env req fs0))) \<Longrightarrow> status (fst (POST env req fs0)) = 200"
  by (auto simp: handler_defs Let_def noFormatResponse_def clipResponse_def split: split_all)







section \<open>The temporary file after a failed transcode\<close>

text \<open>
  Claim C1 says that the file at the allocated path is deleted on every exit path, also
  when the transcoder fails. The handler deletes it on the success path only. What it
  does when the transcoder reports an error after leaving a partial file: the response
  is the caught error with status 500, the partial file is still at the allocated path
  when the request is over, and no deletion of that path was attempted.
\<close>

theorem C1_failed_transcode_leaves_artifact:
  assumes "validateBody b = Inr ()"
    and "getInfo env (stringOf (url b)) = Inr info"
    and "selectFormat (chooseFormat env) (formats info) = Inr (Some f)"
    and "format_url f \<noteq> []"
    and "downloadFromInfo env info
           \<lparr>quality_itag = itag f, filter_name = ''audioandvideo'', highWaterMark = 2 ^ 25\<rparr> = Inr rs"
    and "ffmpegRun env
           (ffmpegCommandOf env rs (numberOf (start b))
              (durationOf env (numberOf (start b)) (numberOf (end' b))) (outFileOf (randomUUID env))) =
         Errored err (Some partial)"
  shows "fst (POST env (JsonBody b) fs0) =
           \<lparr>status = 500, headers = [], payload = Text (catchMessage err)\<rparr> \<and>
         files (snd (POST env (JsonBody b) fs0)) (outFileOf (randomUUID env)) = Some partial \<and>
         Unlink (outFileOf (randomUUID env)) \<notin> set (trace (snd (POST env (JsonBody b) fs0)))"
  using assms
  by (auto simp: handler_defs Let_def ffmpegCommandOf_def split: option.splits)

theorem C1_failed_transcode_leaves_artifact_witness:
  "fst (POST failingTranscodeEnv (JsonBody demoBody) Map.empty) =
     \<lparr>status = 500, headers = [], payload = Text ''ffmpeg exited with code 1''\<rparr> \<and>
   files (snd (POST failingTranscodeEnv (JsonBody demoBody) Map.empty)) ''/tmp/clip_7f3c.mp4'' =
     Some [0, 0]"
  using C1_failed_transcode_leaves_artifact
    [of demoBody failingTranscodeEnv "\<lparr>formats = [demoVideoOnly, demoProgressive]\<rparr>"
      demoProgressive 0 "JsError ''Error'' ''ffmpeg exited with code 1''" "[0, 0]" Map.empty]
  by (simp add: failingTranscodeEnv_def demo_defs)

section \<open>Validation comes before every effect\<close>

text \<open>
  Claim C2. A request whose \<^verbatim>\<open>url\<close> is missing (absent, empty or not a string), whose
  \<^verbatim>\<open>start\<close> or \<^verbatim>\<open>end\<close> is not a number, or whose \<^verbatim>\<open>end <= start\<close> holds, is rejected
  with one of the three messages of \<^verbatim>\<open>validateBody\<close> (status 500) before anything
  else happens: the log of operations is empty, so no identifier was drawn, no manifest
  fetched, no stream opened and no transcoder run, and the files are untouched.
\<close>

theorem C2_invalid_request_touches_nothing:
  assumes "\<not> truthy (url b) \<or> \<not> isString (url b) \<or> \<not> isNumber (start b) \<or>
           \<not> isNumber (end' b) \<or> js_le (numberOf (end' b)) (numberOf (start b))"
  shows "status (fst (POST env (JsonBody b) fs0)) = 500 \<and>
         (payload (fst (POST env (JsonBody b) fs0)) = Text ''Missing url'' \<or>
          payload (fst (POST env (JsonBody b) fs0)) = Text ''Missing start/end'' \<or>
          payload (fst (POST env (JsonBody b) fs0)) = Text ''end must be greater than start'') \<and>
         trace (snd (POST env (JsonBody b) fs0)) = [] \<and>
         files (snd (POST env (JsonBody b) fs0)) = fs0"
proof -
  from assms have "\<exists>m. validateBody b = Inl (JsError ''Error'' m) \<and>
      (m = ''Missing url'' \<or> m = ''Missing start/end'' \<or> m = ''end must be greater than start'')"
    unfolding validateBody_def by (simp split: if_splits)
  then obtain m where v: "validateBody b = Inl (JsError ''Error'' m)"
    and m: "m = ''Missing url'' \<or> m = ''Missing start/end'' \<or> m = ''end must be greater than start''"
    by blast
  from m show ?thesis
    unfolding POST_invalid [OF v] by auto
qed

theorem C2_invalid_request_touches_nothing_witness:
  "js_le (numberOf (end' zeroLengthBody)) (numberOf (start zeroLengthBody)) \<and>
   fst (POST demoEnv (JsonBody zeroLengthBody) Map.empty) =
     \<lparr>status = 500, headers = [], payload = Text ''end must be greater than start''\<rparr> \<and>
   trace (snd (POST demoEnv (JsonBody zeroLengthBody) Map.empty)) = []"
proof -
  have h: "js_le (numberOf (end' zeroLengthBody)) (numberOf (start zeroLengthBody))"
    by (simp add: zeroLengthBody_def)
  have v: "validateBody zeroLengthBody = Inl (JsError ''Error'' ''end must be greater than start'')"
    by (simp add: zeroLengthBody_def validateBody_def)
  from C2_invalid_request_touches_nothing [of zeroLengthBody demoEnv Map.empty] h
  have "trace (snd (POST demoEnv (JsonBody zeroLengthBody) Map.empty)) = []"
    by blast
  with h show ?thesis
    by (simp add: POST_invalid [OF v])
qed

section \<open>Format selection\<close>

text \<open>
  Claim C3. When the manifest holds at least one candidate with container mp4, a video
  track, an audio track and neither HLS nor DASH segmentation, the two-step selection
  returns a candidate of the manifest that has all of these properties, and no
  candidate with these properties has a higher quality rank. The chooser is
  \<open>chooseFormatSpec\<close>.
\<close>

theorem C3_progressive_mp4_preferred:
  assumes "\<exists>f \<in> set fs. container f = ''mp4'' \<and> hasVideo f \<and> hasAudio f \<and> \<not> isHLS f \<and> \<not> isDashMPD f"
  shows "\<exists>g. selectFormat chooseFormatSpec fs = Inr (Some g) \<and> g \<in> set fs \<and>
           container g = ''mp4'' \<and> hasVideo g \<and> hasAudio g \<and> \<not> isHLS g \<and> \<not> isDashMPD g \<and>
           (\<forall>f \<in> set fs.
              container f = ''mp4'' \<and> hasVideo f \<and> hasAudio f \<and> \<not> isHLS f \<and> \<not> isDashMPD f \<longrightarrow>
              qualityRank f \<le> qualityRank g)"
proof -
  let ?ms = "filter progressiveMp4 fs"
  from assms have "?ms \<noteq> []"
    by (auto simp: filter_empty_conv progressiveMp4_def)
  then obtain g where g: "highestRank ?ms = Some g"
    using highestRank_nonempty by blast
  have sel: "selectFormat chooseFormatSpec fs = Inr (Some g)"
    by (simp add: selectFormat_def chooseFormatSpec_def g)
  from highestRank_mem [OF g] have mem: "g \<in> set fs" and pg: "progressiveMp4 g"
    by auto
  have "qualityRank f \<le> qualityRank g" if "f \<in> set fs" "progressiveMp4 f" for f
    using highestRank_max [OF g, of f] that by simp
  with sel mem pg show ?thesis
    by (auto simp: progressiveMp4_def)
qed

theorem C3_progressive_mp4_preferred_witness:
  "demoProgressive \<in> set [demoVideoOnly, demoProgressive] \<and>
   container demoProgressive = ''mp4'' \<and> hasVideo demoProgressive \<and> hasAudio demoProgressive \<and>
   selectFormat chooseFormatSpec [demoVideoOnly, demoProgressive] = Inr (Some demoProgressive) \<and>
   qualityRank demoProgressive < qualityRank demoVideoOnly"
proof -
  have "\<exists>f \<in> set [demoVideoOnly, demoProgressive].
          container f = ''mp4'' \<and> hasVideo f \<and> hasAudio f \<and> \<not> isHLS f \<and> \<not> isDashMPD f"
    by (simp add: demoProgressive_def)
  from C3_progressive_mp4_preferred [OF this] obtain g where
    sel: "selectFormat chooseFormatSpec [demoVideoOnly, demoProgressive] = Inr (Some g)"
    and mem: "g \<in> set [demoVideoOnly, demoProgressive]" and audio: "hasAudio g"
    by blast
  from mem audio have "g = demoProgressive"
    by (auto simp: demoVideoOnly_def)
  with sel show ?thesis
    by (simp add: demoProgressive_def demoVideoOnly_def)
qed

text \<open>
  Claim C4. When the manifest is not empty and none of its candidates is a progressive
  mp4 with both tracks, the selection does not fail: it returns a candidate of the
  manifest whose quality rank no other candidate exceeds, whatever its container and
  segmentation. The chooser is \<open>chooseFormatSpec\<close>.
\<close>

theorem C4_fallback_to_highest_overall:
  assumes "fs \<noteq> []"
    and "\<forall>f \<in> set fs. \<not> (container f = ''mp4'' \<and> hasVideo f \<and> hasAudio f \<and> \<not> isHLS f \<and> \<not> isDashMPD f)"
  shows "\<exists>g. selectFormat chooseFormatSpec fs = Inr (Some g) \<and> g \<in> set fs \<and>
           (\<forall>f \<in> set fs. qualityRank f \<le> qualityRank g)"
proof -
  from assms(2) have none: "filter progressiveMp4 fs = []"
    by (auto simp: filter_empty_conv progressiveMp4_def)
  from assms(1) obtain g where g: "highestRank fs = Some g"
    using highestRank_nonempty by blast
  have "selectFormat chooseFormatSpec fs = Inr (Some g)"
    by (simp add: selectFormat_def chooseFormatSpec_def none g)
  with highestRank_mem [OF g] highestRank_max [OF g] show ?thesis
    by auto
qed

theorem C4_fallback_to_highest_overall_witness:
  "[demoSegmented, demoVideoOnly] \<noteq> [] \<and> isHLS demoSegmented \<and> \<not> hasAudio demoVideoOnly \<and>
   selectFormat chooseFormatSpec [demoSegmented, demoVideoOnly] = Inr (Some demoVideoOnly)"
proof -
  have ne: "[demoSegmented, demoVideoOnly] \<noteq> []"
    by simp
  have none: "\<forall>f \<in> set [demoSegmented, demoVideoOnly].
      \<not> (container f = ''mp4'' \<and> hasVideo f \<and> hasAudio f \<and> \<not> isHLS f \<and> \<not> isDashMPD f)"
    by (simp add: demoSegmented_def demoVideoOnly_def)
  from C4_fallback_to_highest_overall [OF ne none] obtain g where
    sel: "selectFormat chooseFormatSpec [demoSegmented, demoVideoOnly] = Inr (Some g)"
    and mem: "g \<in> set [demoSegmented, demoVideoOnly]"
    and top: "qualityRank demoVideoOnly \<le> qualityRank g"
    by auto
  from mem top have "g = demoVideoOnly"
    by (auto simp: demoSegmented_def demoVideoOnly_def)
  with sel show ?thesis
    by (simp add: demoSegmented_def demoVideoOnly_def)
qed

section \<open>The duration given to the transcoder\<close>

text \<open>
  Claim C5. For a request that passes validation, every transcoder run of the request
  has \<^verbatim>\<open>-t\<close> as its third output option and, after it, the text of
  \<^verbatim>\<open>Math.max(0.01, end - start)\<close>, where the subtraction is the one of doubles and
  \<^verbatim>\<open>0.01\<close> the double of that literal. Where the difference of finite \<^verbatim>\<open>start\<close> and
  \<^verbatim>\<open>end\<close> is a double itself, so that the subtraction does not round, that number is
  the larger of the literal and the difference.
\<close>

theorem C5_duration_after_limit_flag:
  assumes "validateBody b = Inr ()"
    and "RunFfmpeg cmd \<in> set (trace (snd (POST env (JsonBody b) fs0)))"
  shows "\<exists>s e. start b = JNum s \<and> end' b = JNum e \<and>
           outputOptions cmd ! 2 = ''-t'' \<and>
           outputOptions cmd ! 3 =
             toStr env (js_max pointZeroOne (js_sub (roundToDouble env) e s)) \<and>
           (\<forall>x y. s = Fin x \<and> e = Fin y \<and> roundToDouble env (y - x) = Fin (y - x) \<longrightarrow>
              x < y \<and>
              js_max pointZeroOne (js_sub (roundToDouble env) e s) =
                Fin (max (5764607523034235 / 2 ^ 59) (y - x)))"
proof -
  from assms(1) obtain s e where se: "start b = JNum s" "end' b = JNum e" and le: "\<not> js_le e s"
    by (cases "start b"; cases "end' b") (auto simp: validateBody_def split: if_splits)
  from trace_RunFfmpeg [OF assms(2)] obtain rs where
    cmd: "cmd = ffmpegCommandOf env rs s (durationOf env s e) (outFileOf (randomUUID env))"
    by (auto simp: se)
  have "outputOptions cmd ! 2 = ''-t''"
    and "outputOptions cmd ! 3 = toStr env (js_max pointZeroOne (js_sub (roundToDouble env) e s))"
    by (simp_all add: cmd ffmpegCommandOf_def durationOf_def)
  moreover have "x < y \<and>
      js_max pointZeroOne (js_sub (roundToDouble env) e s) =
        Fin (max (5764607523034235 / 2 ^ 59) (y - x))"
    if "s = Fin x" "e = Fin y" "roundToDouble env (y - x) = Fin (y - x)" for x y
    using le that by (simp add: pointZeroOne_def)
  ultimately show ?thesis
    using se by blast
qed

theorem C5_duration_after_limit_flag_witness:
  "validateBody demoBody = Inr () \<and>
   RunFfmpeg demoCommand \<in> set (trace (snd (POST demoEnv (JsonBody demoBody) Map.empty))) \<and>
   outputOptions demoCommand ! 3 =
     toStr demoEnv (js_max pointZeroOne (js_sub (roundToDouble demoEnv) (Fin 15) (Fin 10))) \<and>
   toStr demoEnv (js_max pointZeroOne (js_sub (roundToDouble demoEnv) (Fin 15) (Fin 10))) = ''5''"
proof -
  have mem: "RunFfmpeg demoCommand \<in> set (trace (snd (POST demoEnv (JsonBody demoBody) Map.empty)))"
    by (simp add: demo_trace)
  from C5_duration_after_limit_flag [OF demo_valid mem]
  have "outputOptions demoCommand ! 3 =
          toStr demoEnv (js_max pointZeroOne (js_sub (roundToDouble demoEnv) (Fin 15) (Fin 10)))"
    by (auto simp: demoBody_def)
  moreover have
    "toStr demoEnv (js_max pointZeroOne (js_sub (roundToDouble demoEnv) (Fin 15) (Fin 10))) = ''5''"
    by (simp add: demo_defs)
  ultimately show ?thesis
    using demo_valid mem by simp
qed

section \<open>What validation does not check\<close>




text \<open>
  Claim C7 says that an accepted request has a non-negative \<^verbatim>\<open>start\<close>. The request
  with \<^verbatim>\<open>start\<close> -5 and \<^verbatim>\<open>end\<close> 5 is accepted, answered with status 200, and its
  transcoder run was given \<^verbatim>\<open>-ss -5\<close>.
\<close>

theorem C7_negative_start_passes_validation:
  "validateBody negativeStartBody = Inr () \<and> start negativeStartBody = JNum (Fin (- 5)) \<and>
   (- 5 :: real) < 0 \<and>
   status (fst (POST demoEnv (JsonBody negativeStartBody) Map.empty)) = 200 \<and>
   take 2 (outputOptions (ffmpegCommandOf demoEnv 0 (Fin (- 5)) (Fin 10) ''/tmp/clip_7f3c.mp4'')) =
     [''-ss'', ''-5''] \<and>
   RunFfmpeg (ffmpegCommandOf demoEnv 0 (Fin (- 5)) (Fin 10) ''/tmp/clip_7f3c.mp4'')
     \<in> set (trace (snd (POST demoEnv (JsonBody negativeStartBody) Map.empty)))"
  by (simp add: negativeStartBody_def handler_defs demo_defs)

text \<open>
  Claim C7, amended. Validation puts no lower bound on \<^verbatim>\<open>start\<close>: a request with a
  non-empty \<^verbatim>\<open>url\<close> string and finite numbers \<^verbatim>\<open>start < end\<close> is accepted whatever the
  sign of \<^verbatim>\<open>start\<close>; its \<^verbatim>\<open>url\<close> goes to the manifest fetch, and every transcoder run
  it leads to is given the text of \<^verbatim>\<open>start\<close> after \<^verbatim>\<open>-ss\<close>.
\<close>

theorem C7_start_of_any_sign_accepted:
  assumes "u \<noteq> []" and "x < y"
  shows "validateBody \<lparr>url = JStr u, start = JNum (Fin x), end' = JNum (Fin y), format = v\<rparr> = Inr () \<and>
         GetInfo u \<in> set (trace (snd (POST env
             (JsonBody \<lparr>url = JStr u, start = JNum (Fin x), end' = JNum (Fin y), format = v\<rparr>) fs0))) \<and>
         (\<forall>cmd. RunFfmpeg cmd \<in> set (trace (snd (POST env
             (JsonBody \<lparr>url = JStr u, start = JNum (Fin x), end' = JNum (Fin y), format = v\<rparr>) fs0))) \<longrightarrow>
            outputOptions cmd ! 0 = ''-ss'' \<and> outputOptions cmd ! 1 = toStr env (Fin x))"
proof -
  let ?b = "\<lparr>url = JStr u, start = JNum (Fin x), end' = JNum (Fin y), format = v\<rparr>"
  from assms have v: "validateBody ?b = Inr ()"
    by (simp add: validateBody_def)
  have g: "GetInfo u \<in> set (trace (snd (POST env (JsonBody ?b) fs0)))"
    using v by (auto simp: handler_defs Let_def noFormatResponse_def split: split_all)
  have "outputOptions cmd ! 0 = ''-ss'' \<and> outputOptions cmd ! 1 = toStr env (Fin x)"
    if "RunFfmpeg cmd \<in> set (trace (snd (POST env (JsonBody ?b) fs0)))" for cmd
    using trace_RunFfmpeg [OF that] by (auto simp: ffmpegCommandOf_def)
  with v g show ?thesis by blast
qed

theorem C7_start_of_any_sign_accepted_witness:
  "''https://video.example/watch?v=abc'' \<noteq> [] \<and> (- 5 :: real) < 5 \<and>
   validateBody negativeStartBody = Inr () \<and>
   GetInfo ''https://video.example/watch?v=abc''
     \<in> set (trace (snd (POST demoEnv (JsonBody negativeStartBody) Map.empty)))"
  using C7_start_of_any_sign_accepted
    [of "''https://video.example/watch?v=abc''" "- 5" 5 JUndefined demoEnv Map.empty]
  by (simp add: negativeStartBody_def)

section \<open>Responses\<close>







section \<open>The format field\<close>

text \<open>
  Claim C10. Two requests whose bodies agree on \<^verbatim>\<open>url\<close>, \<^verbatim>\<open>start\<close> and \<^verbatim>\<open>end\<close>, and so
  differ at most in \<^verbatim>\<open>format\<close>, are handled alike: the same response, the same
  operations in the same order, the same files afterwards. Every transcoder run of a
  request has output format mp4 and writes to the request's \<^verbatim>\<open>.mp4\<close> path.
\<close>

theorem C10_format_field_ignored:
  assumes "url b1 = url b2" and "start b1 = start b2" and "end' b1 = end' b2"
  shows "POST env (JsonBody b1) fs0 = POST env (JsonBody b2) fs0 \<and>
         (\<forall>cmd. RunFfmpeg cmd \<in> set (trace (snd (POST env (JsonBody b1) fs0))) \<longrightarrow>
            outputFormat cmd = ''mp4'' \<and> savePath cmd = ''/tmp/clip_'' @ randomUUID env @ ''.mp4'')"
proof -
  have "validateBody b1 = validateBody b2"
    by (simp add: validateBody_def assms)
  moreover have "processValid env b1 = processValid env b2"
    by (simp add: processValid_def assms)
  ultimately have "POST env (JsonBody b1) fs0 = POST env (JsonBody b2) fs0"
    by (simp add: POST_def tryBlock_def)
  moreover have "outputFormat cmd = ''mp4'' \<and> savePath cmd = ''/tmp/clip_'' @ randomUUID env @ ''.mp4''"
    if "RunFfmpeg cmd \<in> set (trace (snd (POST env (JsonBody b1) fs0)))" for cmd
    using trace_RunFfmpeg [OF that] by (auto simp: ffmpegCommandOf_def outFileOf_def)
  ultimately show ?thesis
    by blast
qed

theorem C10_format_field_ignored_witness:
  "url demoBody = url webmBody \<and> format demoBody \<noteq> format webmBody \<and>
   POST demoEnv (JsonBody demoBody) Map.empty = POST demoEnv (JsonBody webmBody) Map.empty \<and>
   RunFfmpeg demoCommand \<in> set (trace (snd (POST demoEnv (JsonBody demoBody) Map.empty))) \<and>
   outputFormat demoCommand = ''mp4''"
proof -
  have eqs: "url demoBody = url webmBody" "start demoBody = start webmBody"
    "end' demoBody = end' webmBody"
    by (simp_all add: demoBody_def webmBody_def)
  have mem: "RunFfmpeg demoCommand \<in> set (trace (snd (POST demoEnv (JsonBody demoBody) Map.empty)))"
    by (simp add: demo_trace)
  from C10_format_field_ignored [OF eqs, of demoEnv Map.empty] mem
  have "POST demoEnv (JsonBody demoBody) Map.empty = POST demoEnv (JsonBody webmBody) Map.empty"
    and "outputFormat demoCommand = ''mp4''"
    by blast+
  with eqs mem show ?thesis
    by (simp add: demoBody_def webmBody_def)
qed

end
